theory Spec2Isabelle
  imports Main "HOL-Library.Sublist"
begin

section \<open>The dependency checker \<open>check_environment.py\<close>\<close>

text \<open>
  The script is a module body of fifteen lines:
  \<^verbatim>\<open>
  packages = ['pandas', 'IPython', 'seaborn', 'pyarrow']

  bad = []
  for package in packages:
      try:
          importlib.import_module(package)
      except ImportError:
          bad.append("Can't import %s" % package)
  else:
      if len(bad) > 0:
          print('\n'.join(bad))
          sys.exit(1)
  \<close>
  It talks to the outside world through three library calls: \<open>importlib.import_module\<close>,
  \<open>print\<close> and \<open>sys.exit\<close>. The model threads a state through the statements that holds
  the variable \<open>bad\<close> and the sequence of those calls made so far, and it makes every
  raise a value.

  What a load attempt does is not in the script: it is the environment, a function from
  the name to the outcome of \<open>import_module\<close>, which either returns or raises some
  exception. A load attempt is taken to return or raise after finite time and to leave
  the standard output alone.
\<close>

subsection \<open>Exceptions and the environment\<close>

text \<open>
  The exceptions that matter to the script. \<open>ModuleNotFoundError\<close> is Python's subclass
  of \<open>ImportError\<close>; \<open>SystemExit\<close> is what \<open>sys.exit\<close> raises; \<open>OtherException\<close> stands for
  an exception of any other class, named by the string (\<open>SyntaxError\<close>, \<open>ValueError\<close>, ...).
\<close>

datatype exn = ImportError | ModuleNotFoundError | SystemExit int | OtherException string

text \<open>\<open>isinstance(e, ImportError)\<close>: what the clause \<open>except ImportError\<close> accepts.\<close>

fun isinstance_ImportError :: "exn \<Rightarrow> bool" where
  "isinstance_ImportError ImportError = True"
| "isinstance_ImportError ModuleNotFoundError = True"
| "isinstance_ImportError (SystemExit n) = False"
| "isinstance_ImportError (OtherException c) = False"

datatype load = Loaded | Raises exn

type_synonym environment = "string \<Rightarrow> load"

subsection \<open>State, calls and control\<close>

datatype event = ImportModule string | Print string | SysExit int

record state =
  bad :: "string list"
  events :: "event list"

text \<open>
  How a statement inside a loop body ends: it falls through to the next iteration,
  it leaves the loop by \<open>break\<close>, or it raises.
\<close>

datatype flow = Continue state | Break state | Throw exn state

text \<open>How a statement of the module body ends: normally, or raising.\<close>

datatype result = Done state | Raised exn state

fun state_of :: "result \<Rightarrow> state" where
  "state_of (Done s) = s"
| "state_of (Raised e s) = s"

subsection \<open>The library calls\<close>

definition import_module :: "environment \<Rightarrow> string \<Rightarrow> state \<Rightarrow> flow" where
  "import_module env name s =
     (let s' = s\<lparr>events := events s @ [ImportModule name]\<rparr>
      in case env name of Loaded \<Rightarrow> Continue s' | Raises e \<Rightarrow> Throw e s')"

definition print :: "string \<Rightarrow> state \<Rightarrow> state" where
  "print text s = s\<lparr>events := events s @ [Print text]\<rparr>"

definition sys_exit :: "int \<Rightarrow> state \<Rightarrow> result" where
  "sys_exit n s = Raised (SystemExit n) (s\<lparr>events := events s @ [SysExit n]\<rparr>)"

text \<open>\<open>sep.join(xs)\<close> on strings.\<close>

fun join :: "string \<Rightarrow> string list \<Rightarrow> string" where
  "join sep [] = []"
| "join sep [x] = x"
| "join sep (x # y # ys) = x @ sep @ join sep (y # ys)"

definition newline :: string where
  "newline = [CHR 0x0A]"

subsection \<open>The module body\<close>

definition packages :: "string list" where
  "packages = [''pandas'', ''IPython'', ''seaborn'', ''pyarrow'']"

text \<open>\<open>"Can't import %s" % package\<close>\<close>

definition cant_import :: "string \<Rightarrow> string" where
  "cant_import package = ''Can't import '' @ package"

text \<open>
  The body of the loop: the \<open>try\<close> statement. Its handler takes an exception that is an
  instance of \<open>ImportError\<close> and appends to \<open>bad\<close>; any other exception leaves the
  statement as it came.
\<close>

definition loop_body :: "environment \<Rightarrow> string \<Rightarrow> state \<Rightarrow> flow" where
  "loop_body env package s =
     (case import_module env package s of
        Throw e s' \<Rightarrow>
          if isinstance_ImportError e
          then Continue (s'\<lparr>bad := bad s' @ [cant_import package]\<rparr>)
          else Throw e s'
      | Continue s' \<Rightarrow> Continue s'
      | Break s' \<Rightarrow> Break s')"

text \<open>
  Python's \<open>for\<close> statement over a list: the iterations in order, stopped by a
  \<open>break\<close> or by an exception. \<open>Continue\<close> as the value of the whole loop says that the
  list was exhausted.
\<close>

fun for_loop :: "('a \<Rightarrow> state \<Rightarrow> flow) \<Rightarrow> 'a list \<Rightarrow> state \<Rightarrow> flow" where
  "for_loop body [] s = Continue s"
| "for_loop body (x # xs) s =
     (case body x s of
        Continue s' \<Rightarrow> for_loop body xs s'
      | Break s' \<Rightarrow> Break s'
      | Throw e s' \<Rightarrow> Throw e s')"

text \<open>
  \<open>for ... else\<close>: the \<open>else\<close> suite runs when the list was exhausted, and is skipped
  when the loop was left by \<open>break\<close>.
\<close>

definition for_else ::
  "('a \<Rightarrow> state \<Rightarrow> flow) \<Rightarrow> (state \<Rightarrow> result) \<Rightarrow> 'a list \<Rightarrow> state \<Rightarrow> result" where
  "for_else body els xs s =
     (case for_loop body xs s of
        Continue s' \<Rightarrow> els s'
      | Break s' \<Rightarrow> Done s'
      | Throw e s' \<Rightarrow> Raised e s')"

text \<open>The \<open>else\<close> suite of the script.\<close>

definition report :: "state \<Rightarrow> result" where
  "report s =
     (if length (bad s) > 0
      then sys_exit 1 (print (join newline (bad s)) s)
      else Done s)"

definition init :: state where
  "init = \<lparr>bad = [], events = []\<rparr>"

text \<open>The module body from \<open>bad = []\<close> on, for any value of \<open>packages\<close>.\<close>

definition check_packages :: "environment \<Rightarrow> string list \<Rightarrow> result" where
  "check_packages env pkgs = for_else (loop_body env) report pkgs init"

definition check_environment :: "environment \<Rightarrow> result" where
  "check_environment env = check_packages env packages"

text \<open>
  The script as a process: it is started with an argument vector and environment
  variables, and reads neither.
\<close>

definition script :: "string list \<Rightarrow> (string \<times> string) list \<Rightarrow> environment \<Rightarrow> result" where
  "script argv environ env = check_environment env"

subsection \<open>What the process shows\<close>

text \<open>
  Standard output: \<open>print\<close> writes its argument and a newline. The exit status is the
  interpreter's: 0 when the module body ends normally, the code of a \<open>SystemExit\<close>, and
  1 after any other exception that nothing caught (its traceback goes to standard error).
\<close>

fun written :: "event list \<Rightarrow> string" where
  "written [] = []"
| "written (Print text # es) = text @ newline @ written es"
| "written (ImportModule name # es) = written es"
| "written (SysExit n # es) = written es"

definition stdout :: "result \<Rightarrow> string" where
  "stdout r = written (events (state_of r))"

fun exit_status :: "result \<Rightarrow> int" where
  "exit_status (Done s) = 0"
| "exit_status (Raised (SystemExit n) s) = n"
| "exit_status (Raised e s) = 1"

text \<open>The names handed to \<open>import_module\<close>, in the order of the calls.\<close>

fun attempts :: "event list \<Rightarrow> string list" where
  "attempts [] = []"
| "attempts (ImportModule name # es) = name # attempts es"
| "attempts (Print text # es) = attempts es"
| "attempts (SysExit n # es) = attempts es"

subsection \<open>The same loop with the report as plain code after it\<close>

text \<open>
  A \<open>for\<close> statement followed by further statements: they run however the loop was
  left, by exhaustion or by \<open>break\<close>; an exception passes through both.
\<close>

definition for_then ::
  "('a \<Rightarrow> state \<Rightarrow> flow) \<Rightarrow> (state \<Rightarrow> result) \<Rightarrow> 'a list \<Rightarrow> state \<Rightarrow> result" where
  "for_then body rest xs s =
     (case for_loop body xs s of
        Continue s' \<Rightarrow> rest s'
      | Break s' \<Rightarrow> rest s'
      | Throw e s' \<Rightarrow> Raised e s')"

text \<open>
  The checker as the specification words it: the loop, then the reporting code as
  unconditional sequential code.
  \<^verbatim>\<open>
  bad = []
  for package in packages:
      try:
          importlib.import_module(package)
      except ImportError:
          bad.append("Can't import %s" % package)
  if len(bad) > 0:
      print('\n'.join(bad))
      sys.exit(1)
  \<close>
\<close>

definition check_packages_sequential :: "environment \<Rightarrow> string list \<Rightarrow> result" where
  "check_packages_sequential env pkgs = for_then (loop_body env) report pkgs init"

definition check_environment_sequential :: "environment \<Rightarrow> result" where
  "check_environment_sequential env = check_packages_sequential env packages"

subsection \<open>Vocabulary of the properties\<close>

text \<open>
  A load attempt fails when it raises at all; the script tells two kinds of failure
  apart. One raises an instance of \<open>ImportError\<close>, which the handler takes; the other
  raises anything else, which the handler lets through.
\<close>

definition load_fails :: "environment \<Rightarrow> string \<Rightarrow> bool" where
  "load_fails env name = (env name \<noteq> Loaded)"

definition import_fails :: "environment \<Rightarrow> string \<Rightarrow> bool" where
  "import_fails env name =
     (case env name of Loaded \<Rightarrow> False | Raises e \<Rightarrow> isinstance_ImportError e)"

definition load_aborts :: "environment \<Rightarrow> string \<Rightarrow> bool" where
  "load_aborts env name =
     (case env name of Loaded \<Rightarrow> False | Raises e \<Rightarrow> \<not> isinstance_ImportError e)"

text \<open>A text of lines, each ended by a newline; the failure lines of a list of names.\<close>

fun unlines :: "string list \<Rightarrow> string" where
  "unlines [] = []"
| "unlines (l # ls) = l @ newline @ unlines ls"

definition failure_lines :: "string list \<Rightarrow> string" where
  "failure_lines names = unlines (map cant_import names)"

text \<open>The calls made by a run, and the variable \<open>bad\<close> at its end.\<close>

definition calls :: "result \<Rightarrow> event list" where
  "calls r = events (state_of r)"

definition result_set :: "result \<Rightarrow> string list" where
  "result_set r = bad (state_of r)"

text \<open>
  Whether the \<open>else\<close> suite of the loop is entered: the loop over the list, started in
  the script's initial state, ends by exhausting the list.
\<close>

definition else_suite_runs :: "environment \<Rightarrow> string list \<Rightarrow> bool" where
  "else_suite_runs env pkgs =
     (case for_loop (loop_body env) pkgs init of
        Continue s \<Rightarrow> True
      | Break s \<Rightarrow> False
      | Throw e s \<Rightarrow> False)"

text \<open>Which calls write to standard output, and which end the process.\<close>

fun is_print :: "event \<Rightarrow> bool" where
  "is_print (Print text) = True"
| "is_print (ImportModule name) = False"
| "is_print (SysExit n) = False"

fun is_exit :: "event \<Rightarrow> bool" where
  "is_exit (SysExit n) = True"
| "is_exit (ImportModule name) = False"
| "is_exit (Print text) = False"

subsection \<open>Some environments\<close>

definition everything_installed :: environment where
  "everything_installed name = Loaded"

definition numpy_missing :: environment where
  "numpy_missing name = (if name = ''numpy'' then Raises ModuleNotFoundError else Loaded)"

definition pandas_seaborn_missing :: environment where
  "pandas_seaborn_missing name =
     (if name = ''pandas'' then Raises ModuleNotFoundError
      else if name = ''seaborn'' then Raises ModuleNotFoundError
      else Loaded)"

definition pyarrow_unloadable :: environment where
  "pyarrow_unloadable name = (if name = ''pyarrow'' then Raises ImportError else Loaded)"

text \<open>
  Installations that are broken rather than missing: a \<open>seaborn\<close> whose import stops
  with an \<open>AttributeError\<close>, a \<open>pandas\<close> built against another \<open>numpy\<close> whose import
  stops with a \<open>ValueError\<close>, a \<open>pyarrow\<close> with a file that does not parse.
\<close>

definition seaborn_broken :: environment where
  "seaborn_broken name =
     (if name = ''pandas'' then Raises ModuleNotFoundError
      else if name = ''seaborn'' then Raises (OtherException ''AttributeError'')
      else Loaded)"

definition pandas_broken :: environment where
  "pandas_broken name =
     (if name = ''pandas'' then Raises (OtherException ''ValueError'')
      else if name = ''seaborn'' then Raises ModuleNotFoundError
      else Loaded)"

definition pyarrow_malformed :: environment where
  "pyarrow_malformed name =
     (if name = ''pyarrow'' then Raises (OtherException ''SyntaxError'') else Loaded)"

section \<open>How the loop runs\<close>

lemma loop_body_Loaded:
  "env n = Loaded \<Longrightarrow> loop_body env n s = Continue (s\<lparr>events := events s @ [ImportModule n]\<rparr>)"
  by (simp add: loop_body_def import_module_def)

lemma loop_body_caught:
  "import_fails env n \<Longrightarrow>
   loop_body env n s =
     Continue (s\<lparr>events := events s @ [ImportModule n], bad := bad s @ [cant_import n]\<rparr>)"
  by (simp add: loop_body_def import_module_def import_fails_def split: load.splits)

lemma loop_body_uncaught:
  "env n = Raises e \<Longrightarrow> \<not> isinstance_ImportError e \<Longrightarrow>
   loop_body env n s = Throw e (s\<lparr>events := events s @ [ImportModule n]\<rparr>)"
  by (simp add: loop_body_def import_module_def)

lemma loop_body_not_Break: "loop_body env n s \<noteq> Break s'"
  by (simp add: loop_body_def import_module_def Let_def split: load.splits)

lemma for_loop_not_Break: "for_loop (loop_body env) pkgs s \<noteq> Break s'"
  by (induction pkgs arbitrary: s) (auto simp: loop_body_not_Break split: flow.splits)

lemma for_loop_append:
  "for_loop body (xs @ ys) s =
     (case for_loop body xs s of
        Continue s' \<Rightarrow> for_loop body ys s'
      | Break s' \<Rightarrow> Break s'
      | Throw e s' \<Rightarrow> Throw e s')"
  by (induction xs arbitrary: s) (simp_all split: flow.splits)

lemma for_loop_no_abort:
  "\<forall>n\<in>set pkgs. \<not> load_aborts env n \<Longrightarrow>
   for_loop (loop_body env) pkgs s =
     Continue (s\<lparr>bad := bad s @ map cant_import (filter (import_fails env) pkgs),
                events := events s @ map ImportModule pkgs\<rparr>)"
proof (induction pkgs arbitrary: s)
  case Nil
  show ?case by simp
next
  case (Cons p ps)
  from Cons.prems have rest: "\<forall>n\<in>set ps. \<not> load_aborts env n" by simp
  show ?case
  proof (cases "env p")
    case Loaded
    then have nf: "\<not> import_fails env p" by (simp add: import_fails_def)
    from Loaded have "loop_body env p s = Continue (s\<lparr>events := events s @ [ImportModule p]\<rparr>)"
      by (rule loop_body_Loaded)
    with Cons.IH [OF rest] nf show ?thesis by simp
  next
    case (Raises e)
    with Cons.prems have inst: "isinstance_ImportError e" by (simp add: load_aborts_def)
    with Raises have f: "import_fails env p" by (simp add: import_fails_def)
    then have "loop_body env p s =
       Continue (s\<lparr>events := events s @ [ImportModule p], bad := bad s @ [cant_import p]\<rparr>)"
      by (rule loop_body_caught)
    with Cons.IH [OF rest] f show ?thesis by simp
  qed
qed

lemma for_loop_abort:
  assumes pre: "\<forall>n\<in>set pre. \<not> load_aborts env n"
    and p: "env p = Raises e" "\<not> isinstance_ImportError e"
  shows "for_loop (loop_body env) (pre @ p # post) s =
     Throw e (s\<lparr>bad := bad s @ map cant_import (filter (import_fails env) pre),
               events := events s @ map ImportModule (pre @ [p])\<rparr>)"
proof -
  have "loop_body env p s' = Throw e (s'\<lparr>events := events s' @ [ImportModule p]\<rparr>)" for s'
    using p by (rule loop_body_uncaught)
  then show ?thesis
    by (simp add: for_loop_append for_loop_no_abort [OF pre])
qed

lemma abort_split:
  assumes "\<exists>n\<in>set pkgs. load_aborts env n"
  shows "\<exists>pre p post e. pkgs = pre @ p # post \<and> (\<forall>n\<in>set pre. \<not> load_aborts env n) \<and>
           env p = Raises e \<and> \<not> isinstance_ImportError e"
proof -
  from split_list_first_prop [OF assms]
  obtain pre p post where d: "pkgs = pre @ p # post" "load_aborts env p"
    "\<forall>n\<in>set pre. \<not> load_aborts env n" by blast
  from d(2) obtain e where "env p = Raises e" "\<not> isinstance_ImportError e"
    by (auto simp: load_aborts_def split: load.splits)
  with d show ?thesis by blast
qed

lemma check_packages_complete:
  assumes "\<forall>n\<in>set pkgs. \<not> load_aborts env n"
  shows "check_packages env pkgs =
     (if filter (import_fails env) pkgs = []
      then Done \<lparr>bad = [], events = map ImportModule pkgs\<rparr>
      else Raised (SystemExit 1)
             \<lparr>bad = map cant_import (filter (import_fails env) pkgs),
              events = map ImportModule pkgs @
                [Print (join newline (map cant_import (filter (import_fails env) pkgs))),
                 SysExit 1]\<rparr>)"
  by (simp add: check_packages_def for_else_def for_loop_no_abort [OF assms] init_def
      report_def print_def sys_exit_def)

lemma check_packages_abort:
  assumes "\<forall>n\<in>set pre. \<not> load_aborts env n" "env p = Raises e" "\<not> isinstance_ImportError e"
  shows "check_packages env (pre @ p # post) =
     Raised e \<lparr>bad = map cant_import (filter (import_fails env) pre),
               events = map ImportModule (pre @ [p])\<rparr>"
  by (simp add: check_packages_def for_else_def for_loop_abort [OF assms] init_def)

lemma join_unlines: "xs \<noteq> [] \<Longrightarrow> join newline xs @ newline = unlines xs"
  by (induction newline xs rule: join.induct) simp_all

lemma written_append: "written (es @ fs) = written es @ written fs"
  by (induction es rule: written.induct) simp_all

lemma written_imports: "written (map ImportModule ns) = []"
  by (induction ns) simp_all

lemma attempts_append: "attempts (es @ fs) = attempts es @ attempts fs"
  by (induction es rule: attempts.induct) simp_all

lemma attempts_imports: "attempts (map ImportModule ns) = ns"
  by (induction ns) simp_all

lemma stdout_complete:
  assumes "\<forall>n\<in>set pkgs. \<not> load_aborts env n"
  shows "stdout (check_packages env pkgs) = failure_lines (filter (import_fails env) pkgs)"
proof (cases "filter (import_fails env) pkgs = []")
  case True
  then show ?thesis
    by (simp add: check_packages_complete [OF assms] stdout_def failure_lines_def written_imports)
next
  case False
  then have "map cant_import (filter (import_fails env) pkgs) \<noteq> []" by simp
  from join_unlines [OF this] False show ?thesis
    by (simp add: check_packages_complete [OF assms] stdout_def failure_lines_def
        written_append written_imports)
qed

lemma stdout_abort:
  assumes "\<exists>n\<in>set pkgs. load_aborts env n"
  shows "stdout (check_packages env pkgs) = []"
proof -
  from abort_split [OF assms] obtain pre p post e where d: "pkgs = pre @ p # post"
    "\<forall>n\<in>set pre. \<not> load_aborts env n" "env p = Raises e" "\<not> isinstance_ImportError e"
    by blast
  show ?thesis
    unfolding d(1) check_packages_abort [OF d(2,3,4)]
    by (simp add: stdout_def written_append written_imports)
qed

lemma loop_body_cong: "env1 n = env2 n \<Longrightarrow> loop_body env1 n s = loop_body env2 n s"
  by (simp add: loop_body_def import_module_def)

lemma for_loop_cong:
  "\<forall>n\<in>set pkgs. env1 n = env2 n \<Longrightarrow>
   for_loop (loop_body env1) pkgs s = for_loop (loop_body env2) pkgs s"
proof (induction pkgs arbitrary: s)
  case Nil
  show ?case by simp
next
  case (Cons p ps)
  from Cons.prems have "env1 p = env2 p" by simp
  then have body: "loop_body env1 p s = loop_body env2 p s" by (rule loop_body_cong)
  from Cons.prems have "\<forall>n\<in>set ps. env1 n = env2 n" by simp
  then have "for_loop (loop_body env1) ps s' = for_loop (loop_body env2) ps s'" for s'
    by (rule Cons.IH)
  with body show ?case by (simp split: flow.splits)
qed


lemma calls_shape:
  "(\<exists>k. calls (check_packages env pkgs) = map ImportModule (take k pkgs)) \<or>
   calls (check_packages env pkgs) =
     map ImportModule pkgs @
       [Print (join newline (result_set (check_packages env pkgs))), SysExit 1]"
proof (cases "\<exists>n\<in>set pkgs. load_aborts env n")
  case True
  from abort_split [OF True] obtain pre p post e where d: "pkgs = pre @ p # post"
    "\<forall>n\<in>set pre. \<not> load_aborts env n" "env p = Raises e" "\<not> isinstance_ImportError e"
    by blast
  have "calls (check_packages env pkgs) = map ImportModule (take (Suc (length pre)) pkgs)"
    unfolding d(1) check_packages_abort [OF d(2,3,4)] by (simp add: calls_def)
  then show ?thesis by blast
next
  case False
  then have na: "\<forall>n\<in>set pkgs. \<not> load_aborts env n" by simp
  show ?thesis
  proof (cases "filter (import_fails env) pkgs = []")
    case True
    then have "calls (check_packages env pkgs) = map ImportModule (take (length pkgs) pkgs)"
      by (simp add: check_packages_complete [OF na] calls_def)
    then show ?thesis by blast
  next
    case False
    then show ?thesis
      by (simp add: check_packages_complete [OF na] calls_def result_set_def)
  qed
qed


lemma no_print_in_imports: "filter is_print (map ImportModule ns) = []"
  by (induction ns) simp_all

lemma no_exit_in_imports: "filter is_exit (map ImportModule ns) = []"
  by (induction ns) simp_all

lemma else_suite_runs_iff:
  "else_suite_runs env pkgs \<longleftrightarrow> (\<forall>n\<in>set pkgs. \<not> load_aborts env n)"
proof (cases "\<exists>n\<in>set pkgs. load_aborts env n")
  case True
  from abort_split [OF True] obtain pre p post e where d: "pkgs = pre @ p # post"
    "\<forall>n\<in>set pre. \<not> load_aborts env n" "env p = Raises e" "\<not> isinstance_ImportError e"
    by blast
  have "\<not> else_suite_runs env pkgs"
    unfolding d(1) else_suite_runs_def for_loop_abort [OF d(2,3,4)] by simp
  with True show ?thesis by blast
next
  case False
  then have na: "\<forall>n\<in>set pkgs. \<not> load_aborts env n" by simp
  have "else_suite_runs env pkgs"
    by (simp add: else_suite_runs_def for_loop_no_abort [OF na])
  with na show ?thesis by blast
qed

section \<open>The properties of the checker\<close>

subsection \<open>Failures are reported\<close>

text \<open>
  C1, as the specification states it, counts every failed load, missing or broken, as
  unresolvable and promises one line for each on standard output. With \<open>pandas\<close>
  missing and a \<open>seaborn\<close> whose import raises \<open>AttributeError\<close>, the handler lets the
  second exception through: the run ends in the loop and nothing is printed, neither a
  line for every failed load nor even the line for \<open>pandas\<close>.
\<close>

theorem import_errors_reported_counterexample:
  "import_fails seaborn_broken ''pandas'' \<and>
   stdout (check_packages seaborn_broken packages) = [] \<and>
   stdout (check_packages seaborn_broken packages) \<noteq>
     failure_lines (filter (import_fails seaborn_broken) packages) \<and>
   stdout (check_packages seaborn_broken packages) \<noteq>
     failure_lines (filter (load_fails seaborn_broken) packages)"
proof -
  have a: "load_aborts seaborn_broken ''seaborn''"
    by (simp add: load_aborts_def seaborn_broken_def)
  have "''seaborn'' \<in> set packages" by (simp add: packages_def)
  with a have "\<exists>n\<in>set packages. load_aborts seaborn_broken n" by blast
  then have out: "stdout (check_packages seaborn_broken packages) = []"
    by (rule stdout_abort)
  have f: "import_fails seaborn_broken ''pandas''"
    by (simp add: import_fails_def seaborn_broken_def)
  have "filter (import_fails seaborn_broken) packages = [''pandas'']"
    by (simp add: packages_def import_fails_def seaborn_broken_def)
  then have l1: "failure_lines (filter (import_fails seaborn_broken) packages) \<noteq> []"
    by (simp add: failure_lines_def cant_import_def)
  have "filter (load_fails seaborn_broken) packages = [''pandas'', ''seaborn'']"
    by (simp add: packages_def load_fails_def seaborn_broken_def)
  then have l2: "failure_lines (filter (load_fails seaborn_broken) packages) \<noteq> []"
    by (simp add: failure_lines_def cant_import_def)
  from out f l1 l2 show ?thesis by simp
qed

text \<open>
  C1, amended: for every list of names in which every load attempt either succeeds or
  raises an instance of \<open>ImportError\<close>, and at least one raises it, the checker ends with
  exit status 1 and its standard output is exactly the lines \<open>Can't import <name>\<close>, one
  for each name whose load raised \<open>ImportError\<close>, in the order of the list, each ended
  by a newline.
\<close>

theorem import_errors_reported:
  assumes "\<forall>n\<in>set pkgs. \<not> load_aborts env n" and "\<exists>n\<in>set pkgs. import_fails env n"
  shows "exit_status (check_packages env pkgs) = 1 \<and>
         stdout (check_packages env pkgs) = failure_lines (filter (import_fails env) pkgs)"
proof -
  from assms(2) have "filter (import_fails env) pkgs \<noteq> []"
    by (simp add: filter_empty_conv)
  then have "exit_status (check_packages env pkgs) = 1"
    by (simp add: check_packages_complete [OF assms(1)])
  with stdout_complete [OF assms(1)] show ?thesis by simp
qed

text \<open>With \<open>pandas\<close> and \<open>seaborn\<close> missing, the script prints their two lines and exits with 1.\<close>

theorem import_errors_reported_witness:
  "exit_status (check_packages pandas_seaborn_missing packages) = 1 \<and>
   stdout (check_packages pandas_seaborn_missing packages) =
     failure_lines [''pandas'', ''seaborn'']"
proof -
  have h1: "\<forall>n\<in>set packages. \<not> load_aborts pandas_seaborn_missing n"
    by (simp add: packages_def load_aborts_def pandas_seaborn_missing_def)
  have "import_fails pandas_seaborn_missing ''pandas''"
    by (simp add: import_fails_def pandas_seaborn_missing_def)
  moreover have "''pandas'' \<in> set packages" by (simp add: packages_def)
  ultimately have h2: "\<exists>n\<in>set packages. import_fails pandas_seaborn_missing n" by blast
  have f: "filter (import_fails pandas_seaborn_missing) packages = [''pandas'', ''seaborn'']"
    by (simp add: packages_def import_fails_def pandas_seaborn_missing_def)
  from import_errors_reported [OF h1 h2] f show ?thesis by simp
qed

subsection \<open>Success is silent\<close>

text \<open>
  C2: for every list of names that all load, the checker ends with exit status 0 and
  writes nothing to standard output.
\<close>

theorem all_loaded_silent:
  assumes "\<forall>n\<in>set pkgs. env n = Loaded"
  shows "exit_status (check_packages env pkgs) = 0 \<and> stdout (check_packages env pkgs) = []"
proof -
  from assms have na: "\<forall>n\<in>set pkgs. \<not> load_aborts env n"
    by (simp add: load_aborts_def)
  from assms have nf: "filter (import_fails env) pkgs = []"
    by (simp add: filter_empty_conv import_fails_def)
  show ?thesis
    by (simp add: check_packages_complete [OF na] nf stdout_def written_imports)
qed

text \<open>The script where all four packages are installed.\<close>

theorem all_loaded_silent_witness:
  "exit_status (check_packages everything_installed packages) = 0 \<and>
   stdout (check_packages everything_installed packages) = []"
proof -
  have "\<forall>n\<in>set packages. everything_installed n = Loaded"
    by (simp add: everything_installed_def)
  from all_loaded_silent [OF this] show ?thesis .
qed

subsection \<open>No short circuit\<close>

text \<open>
  C3 is stated for a load failure of any kind. In a list of four names whose first and
  third fail and whose second and fourth load, let the first fail with a \<open>ValueError\<close>
  (a \<open>pandas\<close> built against another \<open>numpy\<close>): the exception leaves the loop, the
  other three names are never tried, and no failure line appears.
\<close>

theorem no_short_circuit_counterexample:
  "load_fails pandas_broken ''pandas'' \<and> pandas_broken ''IPython'' = Loaded \<and>
   load_fails pandas_broken ''seaborn'' \<and> pandas_broken ''pyarrow'' = Loaded \<and>
   attempts (calls (check_packages pandas_broken
      [''pandas'', ''IPython'', ''seaborn'', ''pyarrow''])) = [''pandas''] \<and>
   stdout (check_packages pandas_broken
      [''pandas'', ''IPython'', ''seaborn'', ''pyarrow'']) = []"
proof -
  have e: "pandas_broken ''pandas'' = Raises (OtherException ''ValueError'')"
    by (simp add: pandas_broken_def)
  have i: "\<not> isinstance_ImportError (OtherException ''ValueError'')" by simp
  have n: "\<forall>n\<in>set ([]::string list). \<not> load_aborts pandas_broken n" by simp
  have r: "check_packages pandas_broken ([] @ ''pandas'' # [''IPython'', ''seaborn'', ''pyarrow'']) =
     Raised (OtherException ''ValueError'')
       \<lparr>bad = map cant_import (filter (import_fails pandas_broken) []),
        events = map ImportModule ([] @ [''pandas''])\<rparr>"
    using n e i by (rule check_packages_abort)
  have a: "attempts (calls (check_packages pandas_broken
      [''pandas'', ''IPython'', ''seaborn'', ''pyarrow''])) = [''pandas'']"
    using r by (simp add: calls_def)
  have s: "stdout (check_packages pandas_broken
      [''pandas'', ''IPython'', ''seaborn'', ''pyarrow'']) = []"
    using r by (simp add: stdout_def)
  have l: "load_fails pandas_broken ''pandas'' \<and> pandas_broken ''IPython'' = Loaded \<and>
   load_fails pandas_broken ''seaborn'' \<and> pandas_broken ''pyarrow'' = Loaded"
    by (simp add: load_fails_def pandas_broken_def)
  from a s l show ?thesis by simp
qed

text \<open>
  C3, amended: a load failure that raises an instance of \<open>ImportError\<close> never
  short-circuits the check. For every list in which no load attempt raises an exception
  of another class, every name of the list is attempted, in list order; in particular,
  if the names at positions 1 and 3 of a list of four fail with \<open>ImportError\<close> and those
  at positions 2 and 4 load, all four are attempted and the failure lines for positions
  1 and 3 are printed, in that order.
\<close>

theorem no_short_circuit_on_import_error:
  "((\<forall>n\<in>set pkgs. \<not> load_aborts env n) \<longrightarrow>
      attempts (calls (check_packages env pkgs)) = pkgs) \<and>
   (import_fails env a \<and> env b = Loaded \<and> import_fails env c \<and> env d = Loaded \<longrightarrow>
      attempts (calls (check_packages env [a, b, c, d])) = [a, b, c, d] \<and>
      stdout (check_packages env [a, b, c, d]) = failure_lines [a, c])"
proof (intro conjI impI)
  assume na: "\<forall>n\<in>set pkgs. \<not> load_aborts env n"
  show "attempts (calls (check_packages env pkgs)) = pkgs"
    by (simp add: check_packages_complete [OF na] calls_def attempts_append attempts_imports)
next
  assume h: "import_fails env a \<and> env b = Loaded \<and> import_fails env c \<and> env d = Loaded"
  then have na: "\<forall>n\<in>set [a, b, c, d]. \<not> load_aborts env n"
    by (auto simp: load_aborts_def import_fails_def split: load.splits)
  show "attempts (calls (check_packages env [a, b, c, d])) = [a, b, c, d]"
    by (simp add: check_packages_complete [OF na] calls_def attempts_append attempts_imports
        del: filter.simps)
next
  assume h: "import_fails env a \<and> env b = Loaded \<and> import_fails env c \<and> env d = Loaded"
  then have na: "\<forall>n\<in>set [a, b, c, d]. \<not> load_aborts env n"
    by (auto simp: load_aborts_def import_fails_def split: load.splits)
  from h have "\<not> import_fails env b" "\<not> import_fails env d" "import_fails env a" "import_fails env c"
    by (simp_all add: import_fails_def)
  then have "filter (import_fails env) [a, b, c, d] = [a, c]" by simp
  with stdout_complete [OF na] show "stdout (check_packages env [a, b, c, d]) = failure_lines [a, c]"
    by simp
qed

text \<open>The script's own list with \<open>pandas\<close> (position 1) and \<open>seaborn\<close> (position 3) missing.\<close>

theorem no_short_circuit_on_import_error_witness:
  "attempts (calls (check_packages pandas_seaborn_missing packages)) = packages \<and>
   attempts (calls (check_packages pandas_seaborn_missing
      [''pandas'', ''IPython'', ''seaborn'', ''pyarrow''])) =
      [''pandas'', ''IPython'', ''seaborn'', ''pyarrow''] \<and>
   stdout (check_packages pandas_seaborn_missing
      [''pandas'', ''IPython'', ''seaborn'', ''pyarrow'']) = failure_lines [''pandas'', ''seaborn'']"
proof -
  have h1: "\<forall>n\<in>set packages. \<not> load_aborts pandas_seaborn_missing n"
    by (simp add: packages_def load_aborts_def pandas_seaborn_missing_def)
  have h2: "import_fails pandas_seaborn_missing ''pandas'' \<and>
            pandas_seaborn_missing ''IPython'' = Loaded \<and>
            import_fails pandas_seaborn_missing ''seaborn'' \<and>
            pandas_seaborn_missing ''pyarrow'' = Loaded"
    by (simp add: import_fails_def pandas_seaborn_missing_def)
  from no_short_circuit_on_import_error
    [of packages pandas_seaborn_missing "''pandas''" "''IPython''" "''seaborn''" "''pyarrow''"]
    h1 h2
  show ?thesis by blast
qed

subsection \<open>What the handler catches\<close>

text \<open>
  C4 says that a load failure of any cause, missing or malformed, is caught where it
  happens and becomes a report line. The handler is \<open>except ImportError\<close>. A \<open>pyarrow\<close>
  with a file that does not parse raises \<open>SyntaxError\<close> on import: the \<open>try\<close> statement
  lets it through, \<open>bad\<close> stays empty, and the run ends after the fourth load attempt
  with that exception and without a report.
\<close>

theorem malformed_not_caught_counterexample:
  "load_fails pyarrow_malformed ''pyarrow'' \<and>
   loop_body pyarrow_malformed ''pyarrow'' init =
     Throw (OtherException ''SyntaxError'') \<lparr>bad = [], events = [ImportModule ''pyarrow'']\<rparr> \<and>
   check_packages pyarrow_malformed [''pandas'', ''IPython'', ''seaborn'', ''pyarrow''] =
     Raised (OtherException ''SyntaxError'')
       \<lparr>bad = [],
        events = [ImportModule ''pandas'', ImportModule ''IPython'', ImportModule ''seaborn'',
                  ImportModule ''pyarrow'']\<rparr> \<and>
   stdout (check_packages pyarrow_malformed [''pandas'', ''IPython'', ''seaborn'', ''pyarrow'']) = []"
proof -
  have e: "pyarrow_malformed ''pyarrow'' = Raises (OtherException ''SyntaxError'')"
    by (simp add: pyarrow_malformed_def)
  have i: "\<not> isinstance_ImportError (OtherException ''SyntaxError'')" by simp
  have l: "load_fails pyarrow_malformed ''pyarrow''"
    by (simp add: load_fails_def e)
  have b: "loop_body pyarrow_malformed ''pyarrow'' init =
     Throw (OtherException ''SyntaxError'') \<lparr>bad = [], events = [ImportModule ''pyarrow'']\<rparr>"
    using loop_body_uncaught [of pyarrow_malformed "''pyarrow''" "OtherException ''SyntaxError''" init] e i
    by (simp add: init_def)
  have n: "\<forall>n\<in>set [''pandas'', ''IPython'', ''seaborn'']. \<not> load_aborts pyarrow_malformed n"
    by (simp add: load_aborts_def pyarrow_malformed_def)
  have f: "filter (import_fails pyarrow_malformed) [''pandas'', ''IPython'', ''seaborn''] = []"
    by (simp add: import_fails_def pyarrow_malformed_def)
  have r: "check_packages pyarrow_malformed [''pandas'', ''IPython'', ''seaborn'', ''pyarrow''] =
     Raised (OtherException ''SyntaxError'')
       \<lparr>bad = [],
        events = [ImportModule ''pandas'', ImportModule ''IPython'', ImportModule ''seaborn'',
                  ImportModule ''pyarrow'']\<rparr>"
    using check_packages_abort [OF n e i, of "[]"] f by simp
  then have s: "stdout (check_packages pyarrow_malformed
      [''pandas'', ''IPython'', ''seaborn'', ''pyarrow'']) = []"
    by (simp add: stdout_def)
  from l b r s show ?thesis by simp
qed

text \<open>
  C4, amended: for every capability whose load attempt raises \<open>ImportError\<close> or a
  subclass of it such as \<open>ModuleNotFoundError\<close>, the failure is caught at the point of
  the load attempt and converted into the report line \<open>Can't import <name>\<close> rather than
  propagated; and when no load attempt raises an exception of another class, the loop
  runs to its end and the run goes on into the final report.
\<close>

theorem import_error_caught:
  "(import_fails env n \<longrightarrow>
      loop_body env n s =
        Continue (s\<lparr>events := events s @ [ImportModule n], bad := bad s @ [cant_import n]\<rparr>)) \<and>
   ((\<forall>n\<in>set pkgs. \<not> load_aborts env n) \<longrightarrow>
      (\<exists>s'. for_loop (loop_body env) pkgs init = Continue s' \<and>
            check_packages env pkgs = report s'))"
proof (intro conjI impI)
  assume "import_fails env n"
  then show "loop_body env n s =
      Continue (s\<lparr>events := events s @ [ImportModule n], bad := bad s @ [cant_import n]\<rparr>)"
    by (rule loop_body_caught)
next
  assume na: "\<forall>n\<in>set pkgs. \<not> load_aborts env n"
  show "\<exists>s'. for_loop (loop_body env) pkgs init = Continue s' \<and>
            check_packages env pkgs = report s'"
    by (simp add: for_loop_no_abort [OF na] check_packages_def for_else_def)
qed

text \<open>A \<open>pyarrow\<close> whose extension module cannot be loaded raises \<open>ImportError\<close>.\<close>

theorem import_error_caught_witness:
  "loop_body pyarrow_unloadable ''pyarrow'' init =
     Continue \<lparr>bad = [cant_import ''pyarrow''], events = [ImportModule ''pyarrow'']\<rparr> \<and>
   (\<exists>s'. for_loop (loop_body pyarrow_unloadable) packages init = Continue s' \<and>
         check_packages pyarrow_unloadable packages = report s')"
proof -
  have h1: "import_fails pyarrow_unloadable ''pyarrow''"
    by (simp add: import_fails_def pyarrow_unloadable_def)
  have h2: "\<forall>n\<in>set packages. \<not> load_aborts pyarrow_unloadable n"
    by (simp add: packages_def load_aborts_def pyarrow_unloadable_def)
  from import_error_caught [of pyarrow_unloadable "''pyarrow''" init packages] h1 h2
  show ?thesis by (simp add: init_def)
qed

subsection \<open>Determinism\<close>

text \<open>
  C5: two runs in which every name of the list has the same resolution outcome give the
  same standard output and the same exit status. The run depends on the environment
  through the outcomes of the listed names only.
\<close>

theorem same_outcomes_same_run:
  assumes "\<forall>n\<in>set pkgs. env1 n = env2 n"
  shows "stdout (check_packages env1 pkgs) = stdout (check_packages env2 pkgs) \<and>
         exit_status (check_packages env1 pkgs) = exit_status (check_packages env2 pkgs)"
proof -
  from assms have "for_loop (loop_body env1) pkgs init = for_loop (loop_body env2) pkgs init"
    by (rule for_loop_cong)
  then have "check_packages env1 pkgs = check_packages env2 pkgs"
    by (simp add: check_packages_def for_else_def)
  then show ?thesis by simp
qed

text \<open>Two environments that differ only in \<open>numpy\<close>, which the script does not load itself.\<close>

theorem same_outcomes_same_run_witness:
  "everything_installed ''numpy'' \<noteq> numpy_missing ''numpy'' \<and>
   stdout (check_packages everything_installed packages) =
     stdout (check_packages numpy_missing packages) \<and>
   exit_status (check_packages everything_installed packages) =
     exit_status (check_packages numpy_missing packages)"
proof -
  have "\<forall>n\<in>set packages. everything_installed n = numpy_missing n"
    by (simp add: packages_def everything_installed_def numpy_missing_def)
  from same_outcomes_same_run [OF this]
  have same: "stdout (check_packages everything_installed packages) =
     stdout (check_packages numpy_missing packages) \<and>
   exit_status (check_packages everything_installed packages) =
     exit_status (check_packages numpy_missing packages)" .
  have "everything_installed ''numpy'' \<noteq> numpy_missing ''numpy''"
    by (simp add: everything_installed_def numpy_missing_def)
  with same show ?thesis by blast
qed

subsection \<open>The configured list\<close>

text \<open>
  C6: the list is the literal of four names \<open>pandas\<close>, \<open>IPython\<close>, \<open>seaborn\<close>, \<open>pyarrow\<close>,
  in that order; the script checks exactly that list whatever its argument vector and
  environment variables are.
\<close>

theorem packages_fixed:
  "packages = [''pandas'', ''IPython'', ''seaborn'', ''pyarrow''] \<and>
   length packages = 4 \<and>
   script argv environ env =
     check_packages env [''pandas'', ''IPython'', ''seaborn'', ''pyarrow''] \<and>
   script argv environ env = script argv' environ' env"
  by (simp add: packages_def script_def check_environment_def)

text \<open>
  C7: for the empty list the checker makes no call at all, writes nothing and ends with
  exit status 0.
\<close>

theorem empty_list_silent:
  "check_packages env [] = Done init \<and>
   stdout (check_packages env []) = [] \<and>
   exit_status (check_packages env []) = 0"
  by (simp add: check_packages_def for_else_def report_def init_def stdout_def)

subsection \<open>The loop and its \<open>else\<close> suite\<close>

text \<open>
  C8 says that the \<open>else\<close> suite always executes because the loop never exits early.
  The loop does exit early when a load attempt raises an exception that the handler
  lets through: with a \<open>pandas\<close> whose import raises \<open>ValueError\<close> the loop ends after
  the first of the four names, the \<open>else\<close> suite is not entered, and the statement ends
  with that exception whatever the suite is.
\<close>

theorem else_suite_skipped_counterexample:
  "for_loop (loop_body pandas_broken) [''pandas'', ''IPython'', ''seaborn'', ''pyarrow''] init =
     Throw (OtherException ''ValueError'') \<lparr>bad = [], events = [ImportModule ''pandas'']\<rparr> \<and>
   \<not> else_suite_runs pandas_broken [''pandas'', ''IPython'', ''seaborn'', ''pyarrow''] \<and>
   for_else (loop_body pandas_broken) report [''pandas'', ''IPython'', ''seaborn'', ''pyarrow''] init =
     Raised (OtherException ''ValueError'') \<lparr>bad = [], events = [ImportModule ''pandas'']\<rparr>"
proof -
  have e: "pandas_broken ''pandas'' = Raises (OtherException ''ValueError'')"
    by (simp add: pandas_broken_def)
  have i: "\<not> isinstance_ImportError (OtherException ''ValueError'')" by simp
  have n: "\<forall>n\<in>set ([]::string list). \<not> load_aborts pandas_broken n" by simp
  have "for_loop (loop_body pandas_broken) ([] @ ''pandas'' # [''IPython'', ''seaborn'', ''pyarrow'']) init =
     Throw (OtherException ''ValueError'')
       (init\<lparr>bad := bad init @ map cant_import (filter (import_fails pandas_broken) []),
             events := events init @ map ImportModule ([] @ [''pandas''])\<rparr>)"
    using n e i by (rule for_loop_abort)
  then have l: "for_loop (loop_body pandas_broken) [''pandas'', ''IPython'', ''seaborn'', ''pyarrow''] init =
     Throw (OtherException ''ValueError'') \<lparr>bad = [], events = [ImportModule ''pandas'']\<rparr>"
    by (simp add: init_def)
  then have r: "\<not> else_suite_runs pandas_broken [''pandas'', ''IPython'', ''seaborn'', ''pyarrow'']"
    by (simp add: else_suite_runs_def)
  from l have f: "for_else (loop_body pandas_broken) report
       [''pandas'', ''IPython'', ''seaborn'', ''pyarrow''] init =
     Raised (OtherException ''ValueError'') \<lparr>bad = [], events = [ImportModule ''pandas'']\<rparr>"
    by (simp add: for_else_def)
  from l r f show ?thesis by simp
qed

text \<open>
  C8, amended: the loop is never left by \<open>break\<close>, so its \<open>else\<close> suite executes exactly
  when no load attempt raises an exception other than \<open>ImportError\<close> (the only early exit
  is such an exception leaving the module body); and the checker's behaviour is equal,
  for every resolution outcome of its names, to the same loop followed by the reporting
  code as unconditional sequential code after the loop.
\<close>

theorem else_suite_after_exhausted_loop:
  "for_loop (loop_body env) pkgs s \<noteq> Break s' \<and>
   (else_suite_runs env pkgs \<longleftrightarrow> (\<forall>n\<in>set pkgs. \<not> load_aborts env n)) \<and>
   for_else (loop_body env) rest pkgs s = for_then (loop_body env) rest pkgs s \<and>
   check_packages env pkgs = check_packages_sequential env pkgs \<and>
   check_environment env = check_environment_sequential env"
proof -
  have nb: "for_loop (loop_body env) ps t \<noteq> Break t'" for ps t t'
    by (rule for_loop_not_Break)
  have eq: "for_else (loop_body env) r ps t = for_then (loop_body env) r ps t" for r ps t
    using nb [of ps t] by (simp add: for_else_def for_then_def split: flow.splits)
  have seq: "check_packages env pkgs = check_packages_sequential env pkgs \<and>
   check_environment env = check_environment_sequential env"
    using eq by (simp add: check_packages_def check_packages_sequential_def check_environment_def
        check_environment_sequential_def)
  from nb eq seq else_suite_runs_iff [of env pkgs] show ?thesis by blast
qed

text \<open>With \<open>pandas\<close> and \<open>seaborn\<close> missing the suite is entered, in both versions.\<close>

theorem else_suite_after_exhausted_loop_witness:
  "else_suite_runs pandas_seaborn_missing packages \<and>
   check_packages pandas_seaborn_missing packages =
     check_packages_sequential pandas_seaborn_missing packages"
proof -
  have h: "\<forall>n\<in>set packages. \<not> load_aborts pandas_seaborn_missing n"
    by (simp add: packages_def load_aborts_def pandas_seaborn_missing_def)
  from else_suite_after_exhausted_loop [of pandas_seaborn_missing packages] h
  show ?thesis by blast
qed

subsection \<open>When output and exit status are decided\<close>

text \<open>
  C9 says that no exit status is decided while checks are still in progress. With a
  \<open>pandas\<close> whose import raises \<open>ValueError\<close>, the run ends with exit status 1 after the
  first of four load attempts and without any call of \<open>sys.exit\<close>; with everything
  installed the status is 0. The status was fixed in the middle of the pass.
\<close>

theorem exit_status_mid_pass_counterexample:
  "exit_status (check_packages pandas_broken [''pandas'', ''IPython'', ''seaborn'', ''pyarrow'']) = 1 \<and>
   attempts (calls (check_packages pandas_broken
      [''pandas'', ''IPython'', ''seaborn'', ''pyarrow''])) = [''pandas''] \<and>
   filter is_exit (calls (check_packages pandas_broken
      [''pandas'', ''IPython'', ''seaborn'', ''pyarrow''])) = [] \<and>
   exit_status (check_packages everything_installed
      [''pandas'', ''IPython'', ''seaborn'', ''pyarrow'']) = 0"
proof -
  have e: "pandas_broken ''pandas'' = Raises (OtherException ''ValueError'')"
    by (simp add: pandas_broken_def)
  have i: "\<not> isinstance_ImportError (OtherException ''ValueError'')" by simp
  have n: "\<forall>n\<in>set ([]::string list). \<not> load_aborts pandas_broken n" by simp
  have r: "check_packages pandas_broken ([] @ ''pandas'' # [''IPython'', ''seaborn'', ''pyarrow'']) =
     Raised (OtherException ''ValueError'')
       \<lparr>bad = map cant_import (filter (import_fails pandas_broken) []),
        events = map ImportModule ([] @ [''pandas''])\<rparr>"
    using n e i by (rule check_packages_abort)
  have a: "exit_status (check_packages pandas_broken
      [''pandas'', ''IPython'', ''seaborn'', ''pyarrow'']) = 1"
    using r by simp
  have b: "attempts (calls (check_packages pandas_broken
      [''pandas'', ''IPython'', ''seaborn'', ''pyarrow''])) = [''pandas'']"
    using r by (simp add: calls_def)
  have c: "filter is_exit (calls (check_packages pandas_broken
      [''pandas'', ''IPython'', ''seaborn'', ''pyarrow''])) = []"
    using r by (simp add: calls_def)
  have na: "\<forall>n\<in>set [''pandas'', ''IPython'', ''seaborn'', ''pyarrow''].
      \<not> load_aborts everything_installed n"
    by (simp add: load_aborts_def everything_installed_def)
  have d: "exit_status (check_packages everything_installed
      [''pandas'', ''IPython'', ''seaborn'', ''pyarrow'']) = 0"
    by (simp add: check_packages_complete [OF na] import_fails_def everything_installed_def)
  from a b c d show ?thesis by simp
qed

text \<open>
  C9, amended: nothing is written to standard output while capability checks are in
  progress; in every run the script writes to standard output at most once and calls
  \<open>sys.exit\<close> at most once, and only after the pass over the whole list has completed.
  In every run in which no load attempt raises an exception other than \<open>ImportError\<close>,
  the exit status too is decided only after the complete pass: it is 1 when the script
  then printed and called \<open>sys.exit(1)\<close>, and 0 when it made no call but the load attempts.
\<close>

theorem output_and_exit_after_the_pass:
  "((\<exists>k. calls (check_packages env pkgs) = map ImportModule (take k pkgs)) \<or>
    calls (check_packages env pkgs) =
      map ImportModule pkgs @
        [Print (join newline (result_set (check_packages env pkgs))), SysExit 1]) \<and>
   length (filter is_print (calls (check_packages env pkgs))) \<le> 1 \<and>
   length (filter is_exit (calls (check_packages env pkgs))) \<le> 1 \<and>
   (stdout (check_packages env pkgs) = [] \<or>
    attempts (calls (check_packages env pkgs)) = pkgs) \<and>
   ((\<forall>n\<in>set pkgs. \<not> load_aborts env n) \<longrightarrow>
      attempts (calls (check_packages env pkgs)) = pkgs \<and>
      (calls (check_packages env pkgs) = map ImportModule pkgs \<and>
       exit_status (check_packages env pkgs) = 0 \<or>
       calls (check_packages env pkgs) =
         map ImportModule pkgs @
           [Print (join newline (result_set (check_packages env pkgs))), SysExit 1] \<and>
       exit_status (check_packages env pkgs) = 1))"
proof -
  have shape: "(\<exists>k. calls (check_packages env pkgs) = map ImportModule (take k pkgs)) \<or>
    calls (check_packages env pkgs) =
      map ImportModule pkgs @
        [Print (join newline (result_set (check_packages env pkgs))), SysExit 1]"
    by (rule calls_shape)
  then have p: "length (filter is_print (calls (check_packages env pkgs))) \<le> 1"
    by (auto simp: no_print_in_imports)
  from shape have x: "length (filter is_exit (calls (check_packages env pkgs))) \<le> 1"
    by (auto simp: no_exit_in_imports)
  have o: "stdout (check_packages env pkgs) = [] \<or>
    attempts (calls (check_packages env pkgs)) = pkgs"
  proof (cases "\<exists>n\<in>set pkgs. load_aborts env n")
    case True
    then show ?thesis by (simp add: stdout_abort)
  next
    case False
    then have na: "\<forall>n\<in>set pkgs. \<not> load_aborts env n" by simp
    have "attempts (calls (check_packages env pkgs)) = pkgs"
      by (simp add: check_packages_complete [OF na] calls_def attempts_append attempts_imports)
    then show ?thesis by simp
  qed
  have c: "(\<forall>n\<in>set pkgs. \<not> load_aborts env n) \<longrightarrow>
      attempts (calls (check_packages env pkgs)) = pkgs \<and>
      (calls (check_packages env pkgs) = map ImportModule pkgs \<and>
       exit_status (check_packages env pkgs) = 0 \<or>
       calls (check_packages env pkgs) =
         map ImportModule pkgs @
           [Print (join newline (result_set (check_packages env pkgs))), SysExit 1] \<and>
       exit_status (check_packages env pkgs) = 1)"
  proof
    assume na: "\<forall>n\<in>set pkgs. \<not> load_aborts env n"
    show "attempts (calls (check_packages env pkgs)) = pkgs \<and>
      (calls (check_packages env pkgs) = map ImportModule pkgs \<and>
       exit_status (check_packages env pkgs) = 0 \<or>
       calls (check_packages env pkgs) =
         map ImportModule pkgs @
           [Print (join newline (result_set (check_packages env pkgs))), SysExit 1] \<and>
       exit_status (check_packages env pkgs) = 1)"
      by (simp add: check_packages_complete [OF na] calls_def result_set_def
          attempts_append attempts_imports)
  qed
  from shape p x o c show ?thesis by blast
qed

text \<open>The script's own list with \<open>pandas\<close> and \<open>seaborn\<close> missing.\<close>

theorem output_and_exit_after_the_pass_witness:
  "attempts (calls (check_packages pandas_seaborn_missing packages)) = packages \<and>
   (calls (check_packages pandas_seaborn_missing packages) = map ImportModule packages \<and>
    exit_status (check_packages pandas_seaborn_missing packages) = 0 \<or>
    calls (check_packages pandas_seaborn_missing packages) =
      map ImportModule packages @
        [Print (join newline (result_set (check_packages pandas_seaborn_missing packages))),
         SysExit 1] \<and>
    exit_status (check_packages pandas_seaborn_missing packages) = 1)"
proof -
  have h: "\<forall>n\<in>set packages. \<not> load_aborts pandas_seaborn_missing n"
    by (simp add: packages_def load_aborts_def pandas_seaborn_missing_def)
  from output_and_exit_after_the_pass [of pandas_seaborn_missing packages] h
  show ?thesis by blast
qed

subsection \<open>The size of the result set\<close>


end
